theory Spec2Isabelle
  imports Complex_Main
begin

section \<open>JavaScript numbers\<close>

text \<open>
  Every amount, pool, strike and limit of the server is a JavaScript number. The model
  keeps the three special values of a double apart from the finite ones, because the
  code tests for them (\<^verbatim>\<open>Number(ton) || 0\<close>, \<^verbatim>\<open>!amt\<close>, \<^verbatim>\<open>isFinite\<close>) and
  every comparison with \<^verbatim>\<open>NaN\<close> is false. Finite values are exact rationals:
  rounding, overflow to infinity and the sign of zero are not modelled.
\<close>

datatype jsnum = Fin rat | PosInf | NegInf | NaN

fun jneg :: "jsnum \<Rightarrow> jsnum" where
  "jneg (Fin a) = Fin (- a)"
| "jneg PosInf = NegInf"
| "jneg NegInf = PosInf"
| "jneg NaN = NaN"

fun jadd :: "jsnum \<Rightarrow> jsnum \<Rightarrow> jsnum" where
  "jadd (Fin a) (Fin b) = Fin (a + b)"
| "jadd NaN _ = NaN"
| "jadd _ NaN = NaN"
| "jadd PosInf NegInf = NaN"
| "jadd NegInf PosInf = NaN"
| "jadd PosInf _ = PosInf"
| "jadd _ PosInf = PosInf"
| "jadd NegInf _ = NegInf"
| "jadd _ NegInf = NegInf"

definition jsub :: "jsnum \<Rightarrow> jsnum \<Rightarrow> jsnum" where
  "jsub a b = jadd a (jneg b)"

text \<open>The sign of a finite value as an infinity, for products and quotients.\<close>

definition signed_inf :: "rat \<Rightarrow> jsnum" where
  "signed_inf a = (if a = 0 then NaN else if 0 < a then PosInf else NegInf)"

fun jmul :: "jsnum \<Rightarrow> jsnum \<Rightarrow> jsnum" where
  "jmul (Fin a) (Fin b) = Fin (a * b)"
| "jmul NaN _ = NaN"
| "jmul _ NaN = NaN"
| "jmul PosInf (Fin b) = signed_inf b"
| "jmul NegInf (Fin b) = signed_inf (- b)"
| "jmul (Fin a) PosInf = signed_inf a"
| "jmul (Fin a) NegInf = signed_inf (- a)"
| "jmul PosInf PosInf = PosInf"
| "jmul NegInf NegInf = PosInf"
| "jmul PosInf NegInf = NegInf"
| "jmul NegInf PosInf = NegInf"

text \<open>
  Division. A finite value over zero is an infinity of the dividend's sign (zero is
  taken as \<open>+0\<close>), \<open>0 / 0\<close> is \<^verbatim>\<open>NaN\<close>.
\<close>

fun jdiv :: "jsnum \<Rightarrow> jsnum \<Rightarrow> jsnum" where
  "jdiv (Fin a) (Fin b) = (if b = 0 then signed_inf a else Fin (a / b))"
| "jdiv NaN _ = NaN"
| "jdiv _ NaN = NaN"
| "jdiv (Fin a) PosInf = Fin 0"
| "jdiv (Fin a) NegInf = Fin 0"
| "jdiv PosInf (Fin b) = (if 0 \<le> b then PosInf else NegInf)"
| "jdiv NegInf (Fin b) = (if 0 \<le> b then NegInf else PosInf)"
| "jdiv PosInf _ = NaN"
| "jdiv NegInf _ = NaN"

fun jabs :: "jsnum \<Rightarrow> jsnum" where
  "jabs (Fin a) = Fin \<bar>a\<bar>"
| "jabs PosInf = PosInf"
| "jabs NegInf = PosInf"
| "jabs NaN = NaN"

fun jlt :: "jsnum \<Rightarrow> jsnum \<Rightarrow> bool" where
  "jlt (Fin a) (Fin b) = (a < b)"
| "jlt NaN _ = False"
| "jlt _ NaN = False"
| "jlt _ NegInf = False"
| "jlt PosInf _ = False"
| "jlt NegInf _ = True"
| "jlt _ PosInf = True"

definition jgt :: "jsnum \<Rightarrow> jsnum \<Rightarrow> bool" where
  "jgt a b = jlt b a"

definition jle :: "jsnum \<Rightarrow> jsnum \<Rightarrow> bool" where
  "jle a b = (a \<noteq> NaN \<and> b \<noteq> NaN \<and> (a = b \<or> jlt a b))"

text \<open>\<^verbatim>\<open>Math.max(a, b)\<close>: \<^verbatim>\<open>NaN\<close> if either argument is.\<close>

definition jmax :: "jsnum \<Rightarrow> jsnum \<Rightarrow> jsnum" where
  "jmax a b = (if a = NaN \<or> b = NaN then NaN else if jlt a b then b else a)"

text \<open>Truthiness of a number: \<^verbatim>\<open>0\<close> and \<^verbatim>\<open>NaN\<close> are falsy.\<close>

definition truthy :: "jsnum \<Rightarrow> bool" where
  "truthy x = (x \<noteq> Fin 0 \<and> x \<noteq> NaN)"

fun isFinite :: "jsnum \<Rightarrow> bool" where
  "isFinite (Fin a) = True"
| "isFinite _ = False"

text \<open>\<^verbatim>\<open>x || 0\<close> on a number.\<close>

definition or0 :: "jsnum \<Rightarrow> jsnum" where
  "or0 x = (if truthy x then x else Fin 0)"

section \<open>Ledger\<close>

text \<open>
  \<^verbatim>\<open>const ledger = new Map()\<close> from user id to \<^verbatim>\<open>{ balanceTon }\<close>. User ids are
  strings (\<^verbatim>\<open>String(userId)\<close>). The optional PostgreSQL mirror is not modelled
  (\<^verbatim>\<open>pgPool\<close> is \<^verbatim>\<open>null\<close>).
\<close>

type_synonym ledger = "string \<rightharpoonup> jsnum"

datatype error =
    InvalidAmount            \<comment> \<open>\<^verbatim>\<open>'Invalid debit amount'\<close>, \<^verbatim>\<open>'Invalid amount'\<close>\<close>
  | InsufficientBalance      \<comment> \<open>\<^verbatim>\<open>'Insufficient balance'\<close>\<close>
  | UserIdRequired           \<comment> \<open>\<^verbatim>\<open>'userId required'\<close>\<close>
  | InvalidAsset             \<comment> \<open>\<^verbatim>\<open>'Invalid asset'\<close>\<close>
  | InvalidDirection         \<comment> \<open>\<^verbatim>\<open>'Invalid direction'\<close>\<close>
  | InvalidExpiryMinutes     \<comment> \<open>\<^verbatim>\<open>'Invalid expiryMinutes'\<close>\<close>
  | InvalidMarketId          \<comment> \<open>\<^verbatim>\<open>'Invalid or missing marketId'\<close>\<close>
  | MarketNotFound           \<comment> \<open>\<^verbatim>\<open>'Market not found'\<close>\<close>
  | MarketNotExpired         \<comment> \<open>\<^verbatim>\<open>'Market not expired'\<close>\<close>

definition getBal :: "ledger \<Rightarrow> string \<Rightarrow> jsnum" where
  "getBal L uid = (case L uid of Some b \<Rightarrow> b | None \<Rightarrow> Fin 0)"

text \<open>\<^verbatim>\<open>credit(userId, ton)\<close> has no check and no \<^verbatim>\<open>throw\<close>.\<close>

definition credit :: "ledger \<Rightarrow> string \<Rightarrow> jsnum \<Rightarrow> ledger" where
  "credit L uid ton =
     (let current = getBal L uid;
          newBalance = jadd current (or0 ton)
      in L(uid \<mapsto> newBalance))"

text \<open>
  \<^verbatim>\<open>debit(userId, ton)\<close> throws before it writes. The result is the error thrown, if
  any, and the ledger as the call leaves it.
\<close>

definition debit :: "ledger \<Rightarrow> string \<Rightarrow> jsnum \<Rightarrow> error option \<times> ledger" where
  "debit L uid ton =
     (let amount = or0 ton in
      if jle amount (Fin 0) then (Some InvalidAmount, L)
      else let current = getBal L uid in
        if jlt current amount then (Some InsufficientBalance, L)
        else let newBalance = jsub current amount
             in (None, L(uid \<mapsto> newBalance)))"

section \<open>Prediction markets\<close>

datatype direction = Above | Below

text \<open>The \<^verbatim>\<open>winner\<close> of a settlement: \<^verbatim>\<open>'draw'\<close>, \<^verbatim>\<open>'above'\<close> or \<^verbatim>\<open>'below'\<close>.\<close>

datatype winner = Draw | Win direction

datatype market_status = Open | Settled

record bet =
  bet_id :: nat
  userId :: string
  direction :: direction
  stakeTon :: jsnum

record market =
  market_id :: nat
  asset :: string
  expiry :: int
  strike :: jsnum
  entryCap :: jsnum
  pools_above :: jsnum
  pools_below :: jsnum
  bets :: "bet list"
  status :: market_status
  openedAt :: int
  settleCap :: "jsnum option"
  feeCollected :: "jsnum option"


text \<open>\<^verbatim>\<open>market.pools[direction] += amount\<close>\<close>

definition pools_add :: "direction \<Rightarrow> jsnum \<Rightarrow> market \<Rightarrow> market" where
  "pools_add d amount m =
     (case d of
        Above \<Rightarrow> m\<lparr>pools_above := jadd (pools_above m) amount\<rparr>
      | Below \<Rightarrow> m\<lparr>pools_below := jadd (pools_below m) amount\<rparr>)"

section \<open>Withdrawals\<close>

record log_entry =
  ts :: int
  amountTon :: jsnum

datatype withdrawal_status = Pending | Completed

record withdrawal =
  w_id :: string
  w_userId :: string
  w_amountTon :: jsnum
  w_feeTon :: jsnum
  w_netTon :: jsnum
  w_to :: string
  w_status :: withdrawal_status
  w_requestedAt :: int
  w_txHash :: "string option"
  w_completedAt :: "int option"
  w_processedAt :: "int option"

section \<open>Server state and configuration\<close>

text \<open>
  The module-level variables of the server. Objects held in the arrays are mutated in
  place by the code; the model rewrites the array slot. Each request is modelled as
  running to completion: interleaving of other requests at an \<^verbatim>\<open>await\<close> is not
  modelled. Time (\<^verbatim>\<open>Date.now()\<close>) and the answer of the external price provider are
  inputs of each operation.
\<close>

record state =
  ledger :: ledger
  withdrawalLog :: "string \<rightharpoonup> log_entry list"
  withdrawQueue :: "withdrawal list"
  markets :: "market list"
  nextMarketId :: nat
  nextBetId :: nat

definition init_state :: state where
  "init_state = \<lparr>ledger = Map.empty, withdrawalLog = Map.empty, withdrawQueue = [],
                  markets = [], nextMarketId = 1, nextBetId = 1\<rparr>"

text \<open>The constants read from the environment.\<close>

record config =
  ALLOWED_PREDICTION_ASSETS :: "string list"
  WITHDRAW_FEE_RATE :: jsnum
  WITHDRAW_LIMIT_DAILY :: jsnum
  WITHDRAW_LIMIT_MONTHLY :: jsnum
  ADMIN_SECRET :: string

text \<open>The defaults of the source.\<close>

definition default_config :: config where
  "default_config = \<lparr>ALLOWED_PREDICTION_ASSETS = [''GIFTS'', ''STICKERS'', ''TON''],
       WITHDRAW_FEE_RATE = Fin (5 / 100), WITHDRAW_LIMIT_DAILY = Fin 500,
       WITHDRAW_LIMIT_MONTHLY = Fin 3000, ADMIN_SECRET = ''s3cret''\<rparr>"

text \<open>\<^verbatim>\<open>Array.prototype.findIndex\<close>, with \<open>None\<close> for \<open>-1\<close>.\<close>

fun find_index :: "('a \<Rightarrow> bool) \<Rightarrow> 'a list \<Rightarrow> nat option" where
  "find_index P [] = None"
| "find_index P (x # xs) = (if P x then Some 0 else map_option Suc (find_index P xs))"

section \<open>Market creation and bets\<close>

text \<open>
  \<^verbatim>\<open>computeTwapCap(asset)\<close>. Its argument here is what \<^verbatim>\<open>await computeMarketCap(asset)\<close>
  gave: \<open>None\<close> when the call threw, \<open>Some capTon\<close> otherwise.
\<close>

definition computeTwapCap :: "jsnum option \<Rightarrow> jsnum" where
  "computeTwapCap r =
     (case r of
        Some capTon \<Rightarrow> if truthy capTon \<and> isFinite capTon then capTon else Fin 0
      | None \<Rightarrow> Fin 0)"

text \<open>
  \<^verbatim>\<open>getOrCreateMarket(asset, expiryMinutes)\<close> returns the state and the index in
  \<^verbatim>\<open>markets\<close> of the market object it returns.
\<close>

definition getOrCreateMarket ::
  "state \<Rightarrow> string \<Rightarrow> int \<Rightarrow> int \<Rightarrow> jsnum option \<Rightarrow> state \<times> nat" where
  "getOrCreateMarket s a expiryMinutes now prov =
     (let expiry' = now + expiryMinutes * 60 * 1000 in
      case find_index (\<lambda>m. asset m = a \<and> expiry m = expiry' \<and> status m = Open) (markets s) of
        Some i \<Rightarrow> (s, i)
      | None \<Rightarrow>
          let cap = computeTwapCap prov;
              market = \<lparr>market_id = nextMarketId s, asset = a, expiry = expiry',
                        strike = cap, entryCap = cap,
                        pools_above = Fin 0, pools_below = Fin 0, bets = [],
                        status = Open, openedAt = now,
                        settleCap = None, feeCollected = None\<rparr>
          in (s\<lparr>markets := markets s @ [market], nextMarketId := nextMarketId s + 1\<rparr>,
              length (markets s)))"

text \<open>
  The body of \<^verbatim>\<open>POST /api/prediction/open\<close>, after \<^verbatim>\<open>toUpperCase\<close>, \<^verbatim>\<open>toLowerCase\<close>,
  \<^verbatim>\<open>parseFloat\<close> and \<^verbatim>\<open>parseInt(..) || 0\<close>.
\<close>

record open_req =
  o_userId :: string
  o_asset :: string
  o_direction :: string
  o_amount :: jsnum
  o_expiryMinutes :: int

definition parse_direction :: "string \<Rightarrow> direction option" where
  "parse_direction d =
     (if d = ''above'' then Some Above else if d = ''below'' then Some Below else None)"

definition prediction_open ::
  "config \<Rightarrow> state \<Rightarrow> open_req \<Rightarrow> int \<Rightarrow> jsnum option \<Rightarrow> (error + bet \<times> nat) \<times> state" where
  "prediction_open cfg s r now prov =
     (if o_userId r = [] then (Inl UserIdRequired, s)
      else if o_asset r = [] \<or> o_asset r \<notin> set (ALLOWED_PREDICTION_ASSETS cfg)
        then (Inl InvalidAsset, s)
      else case parse_direction (o_direction r) of
        None \<Rightarrow> (Inl InvalidDirection, s)
      | Some d \<Rightarrow>
          if \<not> truthy (o_amount r) \<or> jle (o_amount r) (Fin 0) then (Inl InvalidAmount, s)
          else if o_expiryMinutes r \<le> 0 then (Inl InvalidExpiryMinutes, s)
          else (case debit (ledger s) (o_userId r) (o_amount r) of
            (Some e, L) \<Rightarrow> (Inl e, s\<lparr>ledger := L\<rparr>)
          | (None, L) \<Rightarrow>
              (case getOrCreateMarket (s\<lparr>ledger := L\<rparr>) (o_asset r)
                      (o_expiryMinutes r) now prov of
                 (s1, i) \<Rightarrow>
                   let b = \<lparr>bet_id = nextBetId s1, userId = o_userId r, direction = d,
                            stakeTon = o_amount r\<rparr>;
                       m = markets s1 ! i;
                       m' = pools_add d (o_amount r) (m\<lparr>bets := bets m @ [b]\<rparr>)
                   in (Inr (b, market_id m'),
                       s1\<lparr>markets := list_update (markets s1) i m',
                          nextBetId := nextBetId s1 + 1\<rparr>))))"

section \<open>Settlement\<close>

definition winner_of :: "jsnum \<Rightarrow> jsnum \<Rightarrow> winner" where
  "winner_of strk cap =
     (let eps = Fin (2 / 1000) in
      if strk = Fin 0 then Draw
      else if jlt (jdiv (jabs (jsub cap strk)) strk) eps then Draw
      else if jgt cap strk then Win Above else Win Below)"

text \<open>The two payout loops of \<^verbatim>\<open>settleMarket\<close>.\<close>

fun refund_all :: "ledger \<Rightarrow> bet list \<Rightarrow> ledger" where
  "refund_all L [] = L"
| "refund_all L (b # bs) = refund_all (credit L (userId b) (stakeTon b)) bs"

fun pay_winners :: "direction \<Rightarrow> jsnum \<Rightarrow> ledger \<Rightarrow> bet list \<Rightarrow> ledger" where
  "pay_winners w perTon L [] = L"
| "pay_winners w perTon L (b # bs) =
     pay_winners w perTon
       (if direction b = w then credit L (userId b) (jmul (stakeTon b) perTon) else L) bs"

definition settleMarket :: "ledger \<Rightarrow> market \<Rightarrow> jsnum option \<Rightarrow> ledger \<times> market" where
  "settleMarket L m prov =
     (if status m \<noteq> Open then (L, m)
      else
        let cap = computeTwapCap prov;
            win = winner_of (strike m) cap;
            A = pools_above m;
            B = pools_below m;
            total = jadd A B;
            feeRate = Fin (2 / 100);
            fee = jmul total feeRate;
            distributable = jsub total fee;
            L' = (case win of
                    Draw \<Rightarrow> refund_all L (bets m)
                  | Win w \<Rightarrow>
                      let winPool = (if w = Above then A else B);
                          perTon = (if jgt winPool (Fin 0) then jdiv distributable winPool
                                    else Fin 0)
                      in pay_winners w perTon L (bets m))
        in (L', m\<lparr>status := Settled, settleCap := Some cap, feeCollected := Some fee\<rparr>))"

text \<open>
  The body of \<^verbatim>\<open>POST /api/prediction/settle\<close>; \<open>marketId\<close> is \<^verbatim>\<open>Number(data.marketId)\<close>.
\<close>

definition prediction_settle ::
  "state \<Rightarrow> jsnum \<Rightarrow> int \<Rightarrow> jsnum option \<Rightarrow> (error + market) \<times> state" where
  "prediction_settle s marketId now prov =
     (if \<not> truthy marketId then (Inl InvalidMarketId, s)
      else case find_index (\<lambda>m. Fin (of_nat (market_id m)) = marketId) (markets s) of
        None \<Rightarrow> (Inl MarketNotFound, s)
      | Some i \<Rightarrow>
          let market = markets s ! i in
          if now < expiry market then (Inl MarketNotExpired, s)
          else let (L, m') = settleMarket (ledger s) market prov
               in (Inr m', s\<lparr>ledger := L, markets := list_update (markets s) i m'\<rparr>))"





section \<open>Deposits and withdrawals\<close>

text \<open>The body of \<^verbatim>\<open>POST /api/wallet/deposit/webhook\<close>; \<open>amt\<close> is \<^verbatim>\<open>Number(amountTon)\<close>.\<close>

definition wallet_deposit :: "state \<Rightarrow> string \<Rightarrow> jsnum \<Rightarrow> bool \<times> state" where
  "wallet_deposit s uid amt =
     (if uid = [] \<or> \<not> truthy amt \<or> jle amt (Fin 0) then (False, s)
      else (True, s\<lparr>ledger := credit (ledger s) uid amt\<rparr>))"

record usage =
  dailyUsed :: jsnum
  monthlyUsed :: jsnum

definition dayMs :: int where
  "dayMs = 24 * 60 * 60 * 1000"

definition monthMs :: int where
  "monthMs = 30 * dayMs"

text \<open>The loop of \<^verbatim>\<open>getWithdrawUsage\<close> over the user's log.\<close>

fun usage_loop :: "int \<Rightarrow> usage \<Rightarrow> log_entry list \<Rightarrow> usage" where
  "usage_loop now acc [] = acc"
| "usage_loop now acc (e # es) =
     (let diff = now - ts e in
      if diff < monthMs then
        let acc1 = acc\<lparr>monthlyUsed := jadd (monthlyUsed acc) (amountTon e)\<rparr> in
        if diff < dayMs then
          usage_loop now (acc1\<lparr>dailyUsed := jadd (dailyUsed acc1) (amountTon e)\<rparr>) es
        else usage_loop now acc1 es
      else usage_loop now acc es)"

definition getWithdrawUsage :: "(string \<rightharpoonup> log_entry list) \<Rightarrow> string \<Rightarrow> int \<Rightarrow> usage" where
  "getWithdrawUsage wlog uid now =
     (let logs = (case wlog uid of Some l \<Rightarrow> l | None \<Rightarrow> [])
      in usage_loop now \<lparr>dailyUsed = Fin 0, monthlyUsed = Fin 0\<rparr> logs)"

text \<open>\<^verbatim>\<open>Number.prototype.toString(16)\<close> on a non-negative integer.\<close>

definition hex_digit :: "nat \<Rightarrow> char" where
  "hex_digit d = ''0123456789abcdef'' ! d"

fun to_hex :: "nat \<Rightarrow> string" where
  "to_hex n = (if n < 16 then [hex_digit n] else to_hex (n div 16) @ [hex_digit (n mod 16)])"

declare to_hex.simps [simp del]

text \<open>
  The body of \<^verbatim>\<open>POST /api/wallet/withdraw\<close>; \<open>amt\<close> is \<^verbatim>\<open>Number(amountTon)\<close>. The handler
  reads the clock three times: in \<^verbatim>\<open>getWithdrawUsage\<close>, for the log entry and for the
  request id.
\<close>

record withdraw_req =
  wr_userId :: string
  wr_to :: string
  wr_amt :: jsnum
  wr_now_usage :: int
  wr_now :: int
  wr_now_id :: int

datatype withdraw_resp =
    InvalidWithdrawal
      \<comment> \<open>400 \<^verbatim>\<open>'Invalid withdrawal request'\<close>\<close>
  | DailyLimitExceeded jsnum jsnum jsnum
      \<comment> \<open>400 with \<^verbatim>\<open>dailyLimit\<close>, \<^verbatim>\<open>dailyUsed\<close>, \<^verbatim>\<open>dailyRemaining\<close>\<close>
  | MonthlyLimitExceeded jsnum jsnum jsnum
      \<comment> \<open>400 with \<^verbatim>\<open>monthlyLimit\<close>, \<^verbatim>\<open>monthlyUsed\<close>, \<^verbatim>\<open>monthlyRemaining\<close>\<close>
  | WithdrawFailed error
      \<comment> \<open>400 from the \<^verbatim>\<open>catch\<close>, with the message of the error\<close>
  | WithdrawOk string jsnum jsnum usage usage
      \<comment> \<open>200 with \<^verbatim>\<open>requestId\<close>, \<^verbatim>\<open>feeTon\<close>, \<^verbatim>\<open>netTon\<close>, the new usage and what remains\<close>

definition wallet_withdraw :: "config \<Rightarrow> state \<Rightarrow> withdraw_req \<Rightarrow> withdraw_resp \<times> state" where
  "wallet_withdraw cfg s r =
     (let amt = wr_amt r in
      if wr_userId r = [] \<or> wr_to r = [] \<or> \<not> truthy amt \<or> jle amt (Fin 0)
        then (InvalidWithdrawal, s)
      else
        let u = getWithdrawUsage (withdrawalLog s) (wr_userId r) (wr_now_usage r) in
        if jgt (jadd amt (dailyUsed u)) (WITHDRAW_LIMIT_DAILY cfg) then
          (DailyLimitExceeded (WITHDRAW_LIMIT_DAILY cfg) (dailyUsed u)
             (jmax (Fin 0) (jsub (WITHDRAW_LIMIT_DAILY cfg) (dailyUsed u))), s)
        else if jgt (jadd amt (monthlyUsed u)) (WITHDRAW_LIMIT_MONTHLY cfg) then
          (MonthlyLimitExceeded (WITHDRAW_LIMIT_MONTHLY cfg) (monthlyUsed u)
             (jmax (Fin 0) (jsub (WITHDRAW_LIMIT_MONTHLY cfg) (monthlyUsed u))), s)
        else
          let feeTon = jmul amt (WITHDRAW_FEE_RATE cfg);
              netTon = jsub amt feeTon
          in case debit (ledger s) (wr_userId r) amt of
               (Some e, L) \<Rightarrow> (WithdrawFailed e, s\<lparr>ledger := L\<rparr>)
             | (None, L) \<Rightarrow>
                 let uid = wr_userId r;
                     userLog = (case withdrawalLog s uid of Some l \<Rightarrow> l | None \<Rightarrow> []);
                     userLog' = userLog @ [\<lparr>ts = wr_now r, amountTon = amt\<rparr>];
                     requestId = ''wd_'' @ to_hex (nat (wr_now_id r));
                     entry = \<lparr>w_id = requestId, w_userId = uid, w_amountTon = amt,
                              w_feeTon = feeTon, w_netTon = netTon, w_to = wr_to r,
                              w_status = Pending, w_requestedAt = wr_now r,
                              w_txHash = None, w_completedAt = None, w_processedAt = None\<rparr>;
                     newDailyUsed = jadd (dailyUsed u) amt;
                     newMonthlyUsed = jadd (monthlyUsed u) amt
                 in (WithdrawOk requestId feeTon netTon
                       \<lparr>dailyUsed = newDailyUsed, monthlyUsed = newMonthlyUsed\<rparr>
                       \<lparr>dailyUsed = jmax (Fin 0) (jsub (WITHDRAW_LIMIT_DAILY cfg) newDailyUsed),
                        monthlyUsed =
                          jmax (Fin 0) (jsub (WITHDRAW_LIMIT_MONTHLY cfg) newMonthlyUsed)\<rparr>,
                     s\<lparr>ledger := L,
                       withdrawalLog := (withdrawalLog s)(uid \<mapsto> userLog'),
                       withdrawQueue := withdrawQueue s @ [entry]\<rparr>))"



section \<open>Completing a withdrawal\<close>

text \<open>
  \<^verbatim>\<open>handleApi\<close> has two \<^verbatim>\<open>if\<close> blocks for \<^verbatim>\<open>POST /api/admin/withdrawals/process\<close>, both
  ending in \<^verbatim>\<open>return true\<close>. The request carries what either block reads: the JSON body
  (\<open>None\<close> for a field that is missing or not a string), the \<^verbatim>\<open>x-admin-secret\<close> header
  and the \<^verbatim>\<open>secret\<close> query parameter.
\<close>

record process_req =
  p_pathname :: string
  p_method :: string
  p_body_secret :: "string option"
  p_body_id :: "string option"
  p_body_txHash :: "string option"
  p_header_secret :: "string option"
  p_query_secret :: "string option"

datatype process_resp =
    Forbidden                 \<comment> \<open>403\<close>
  | WithdrawalNotFound        \<comment> \<open>404 \<^verbatim>\<open>'Withdrawal not found'\<close>\<close>
  | AlreadyProcessed          \<comment> \<open>400 \<^verbatim>\<open>'Withdrawal already processed'\<close>\<close>
  | ProcessOk withdrawal      \<comment> \<open>200 \<^verbatim>\<open>{ success: true, withdrawal }\<close>\<close>
  | NotHandled                \<comment> \<open>no block matched; \<^verbatim>\<open>handleApi\<close> goes on\<close>

text \<open>The first block (source lines 1132 to 1154).\<close>

definition process_first :: "config \<Rightarrow> state \<Rightarrow> process_req \<Rightarrow> int \<Rightarrow> process_resp \<times> state" where
  "process_first cfg s r now =
     (if ADMIN_SECRET cfg = [] \<or> p_body_secret r \<noteq> Some (ADMIN_SECRET cfg) then (Forbidden, s)
      else case find_index (\<lambda>w. Some (w_id w) = p_body_id r) (withdrawQueue s) of
        None \<Rightarrow> (WithdrawalNotFound, s)
      | Some idx \<Rightarrow>
          let entry = withdrawQueue s ! idx in
          if w_status entry = Completed then (ProcessOk entry, s)
          else
            let entry' = entry\<lparr>w_status := Completed,
                               w_txHash := (case p_body_txHash r of
                                              Some h \<Rightarrow> if h = [] then None else Some h
                                            | None \<Rightarrow> None),
                               w_completedAt := Some now\<rparr>
            in (ProcessOk entry', s\<lparr>withdrawQueue := list_update (withdrawQueue s) idx entry'\<rparr>))"

text \<open>The second block (source lines 1444 to 1466).\<close>

definition process_second :: "config \<Rightarrow> state \<Rightarrow> process_req \<Rightarrow> int \<Rightarrow> process_resp \<times> state" where
  "process_second cfg s r now =
     (let secret = (case p_header_secret r of
                      Some h \<Rightarrow> if h = [] then p_query_secret r else Some h
                    | None \<Rightarrow> p_query_secret r) in
      if ADMIN_SECRET cfg = [] \<or> secret \<noteq> Some (ADMIN_SECRET cfg) then (Forbidden, s)
      else case find_index (\<lambda>w. Some (w_id w) = p_body_id r) (withdrawQueue s) of
        None \<Rightarrow> (WithdrawalNotFound, s)
      | Some idx \<Rightarrow>
          if w_status (withdrawQueue s ! idx) \<noteq> Pending then (AlreadyProcessed, s)
          else
            let entry' = (withdrawQueue s ! idx)\<lparr>w_status := Completed,
                                                 w_processedAt := Some now\<rparr>
            in (ProcessOk entry', s\<lparr>withdrawQueue := list_update (withdrawQueue s) idx entry'\<rparr>))"

text \<open>The two blocks in the order \<^verbatim>\<open>handleApi\<close> tests them.\<close>

definition handleApi_process ::
  "config \<Rightarrow> state \<Rightarrow> process_req \<Rightarrow> int \<Rightarrow> process_resp \<times> state" where
  "handleApi_process cfg s r now =
     (if p_pathname r = ''/api/admin/withdrawals/process'' \<and> p_method r = ''POST''
        then process_first cfg s r now
      else if p_pathname r = ''/api/admin/withdrawals/process'' \<and> p_method r = ''POST''
        then process_second cfg s r now
      else (NotHandled, s))"

section \<open>Runs of the server\<close>

text \<open>The requests that change the state, each with the inputs its handler reads.\<close>

datatype request =
    ReqOpen open_req int "jsnum option"
  | ReqSettle jsnum int "jsnum option"
  | ReqDeposit string jsnum
  | ReqWithdraw withdraw_req
  | ReqProcess process_req int

fun step :: "config \<Rightarrow> state \<Rightarrow> request \<Rightarrow> state" where
  "step cfg s (ReqOpen r now prov) = snd (prediction_open cfg s r now prov)"
| "step cfg s (ReqSettle marketId now prov) = snd (prediction_settle s marketId now prov)"
| "step cfg s (ReqDeposit uid amt) = snd (wallet_deposit s uid amt)"
| "step cfg s (ReqWithdraw r) = snd (wallet_withdraw cfg s r)"
| "step cfg s (ReqProcess r now) = snd (handleApi_process cfg s r now)"

fun run :: "config \<Rightarrow> state \<Rightarrow> request list \<Rightarrow> state" where
  "run cfg s [] = s"
| "run cfg s (q # qs) = run cfg (step cfg s q) qs"









section \<open>Example inputs\<close>











text \<open>
  \<open>alice\<close> deposits 1000 and withdraws 490 at time 0. One second later she asks for 10
  more, which brings her to the daily limit of 500 exactly, or for 10.01.
\<close>

definition withdraw_490 :: withdraw_req where
  "withdraw_490 = \<lparr>wr_userId = ''alice'', wr_to = ''EQaddr'', wr_amt = Fin 490,
                    wr_now_usage = 0, wr_now = 0, wr_now_id = 0\<rparr>"

definition used_490_run :: "request list" where
  "used_490_run = [ReqDeposit ''alice'' (Fin 1000), ReqWithdraw withdraw_490]"


text \<open>\<open>carol\<close> deposits 5 and then asks to withdraw 10.\<close>

definition carol_run :: "request list" where
  "carol_run = [ReqDeposit ''carol'' (Fin 5)]"

definition carol_withdraw :: withdraw_req where
  "carol_withdraw = \<lparr>wr_userId = ''carol'', wr_to = ''EQaddr'', wr_amt = Fin 10,
                      wr_now_usage = 1000, wr_now = 1000, wr_now_id = 1000\<rparr>"

text \<open>
  The administrator completes \<open>alice\<close>'s withdrawal of 490 (request id \<open>wd_0\<close>), sending
  the secret both in the body and in the header.
\<close>

definition admin_process :: process_req where
  "admin_process = \<lparr>p_pathname = ''/api/admin/withdrawals/process'', p_method = ''POST'',
                     p_body_secret = Some ''s3cret'', p_body_id = Some ''wd_0'',
                     p_body_txHash = Some ''tx1'', p_header_secret = Some ''s3cret'',
                     p_query_secret = None\<rparr>"

definition processed_run :: "request list" where
  "processed_run = used_490_run @ [ReqProcess admin_process 5000]"

definition pending_entry :: withdrawal where
  "pending_entry =
     \<lparr>w_id = ''wd_0'', w_userId = ''alice'', w_amountTon = Fin 490, w_feeTon = Fin (49 / 2),
      w_netTon = Fin (931 / 2), w_to = ''EQaddr'', w_status = Pending, w_requestedAt = 0,
      w_txHash = None, w_completedAt = None, w_processedAt = None\<rparr>"

definition completed_entry :: withdrawal where
  "completed_entry =
     pending_entry\<lparr>w_status := Completed, w_txHash := Some ''tx1'', w_completedAt := Some 5000\<rparr>"

section \<open>Facts about numbers\<close>






lemma or0_cases: "or0 x = (if x = NaN then Fin 0 else x)"
  by (cases x) (simp_all add: or0_def truthy_def)

lemma or0_not_NaN: "or0 x \<noteq> NaN"
  by (simp add: or0_cases)

lemma jlt_zero_iff_not_jle: "a \<noteq> NaN \<Longrightarrow> jlt (Fin 0) a \<longleftrightarrow> \<not> jle a (Fin 0)"
  by (cases a) (auto simp: jle_def)

lemma getBal_upd_same: "getBal (L(u \<mapsto> b)) u = b"
  by (simp add: getBal_def)

lemma getBal_upd_other: "v \<noteq> u \<Longrightarrow> getBal (L(u \<mapsto> b)) v = getBal L v"
  by (simp add: getBal_def)

section \<open>Pools and stakes\<close>




















text \<open>Unfolding the handlers on concrete requests.\<close>

lemmas eval_defs = init_state_def default_config_def wallet_deposit_def prediction_open_def
  prediction_settle_def settleMarket_def getOrCreateMarket_def computeTwapCap_def winner_of_def
  parse_direction_def debit_def credit_def getBal_def or0_def truthy_def jle_def jgt_def jsub_def
  pools_add_def Let_def

section \<open>Settlement as a list of credits\<close>






section \<open>Sums of positive and of finite amounts\<close>








section \<open>The invariant on each side's pool\<close>












section \<open>Payouts of a directional settlement\<close>








section \<open>Draws\<close>





section \<open>Settled markets stay as they are\<close>











lemma run_append: "run cfg s (xs @ ys) = run cfg (run cfg s xs) ys"
  by (induction xs arbitrary: s) simp_all

section \<open>Withdrawal usage and limits\<close>



lemma positive_valid: "jgt a (Fin 0) \<Longrightarrow> truthy a \<and> \<not> jle a (Fin 0)"
  by (cases a) (auto simp: jgt_def truthy_def jle_def)


lemma debit_insufficient:
  "jgt a (Fin 0) \<Longrightarrow> jlt (getBal L u) a \<Longrightarrow> debit L u a = (Some InsufficientBalance, L)"
  by (cases a) (auto simp: debit_def Let_def or0_cases jgt_def jle_def)


section \<open>Facts about completing a withdrawal\<close>

lemma handleApi_process_first:
  "p_pathname r = ''/api/admin/withdrawals/process'' \<Longrightarrow> p_method r = ''POST'' \<Longrightarrow>
   handleApi_process cfg s r now = process_first cfg s r now"
  by (simp add: handleApi_process_def)

lemma process_first_never_already:
  "fst (process_first cfg s r now) \<noteq> AlreadyProcessed"
  by (simp add: process_first_def Let_def split: option.splits)

lemma handleApi_process_ledger: "ledger (snd (handleApi_process cfg s r now)) = ledger s"
  by (simp add: handleApi_process_def process_first_def process_second_def Let_def
        split: option.splits)

section \<open>Ledger operations\<close>

text \<open>
  C3 (as the code has it): \<^verbatim>\<open>credit\<close> validates nothing and never throws. It adds
  \<^verbatim>\<open>Number(ton) || 0\<close> to the balance: \<^verbatim>\<open>NaN\<close> counts as 0, and any other amount,
  negative and infinite ones included, is added as it is. So every finite non-negative
  amount increases the balance by that amount, and no other balance changes.
\<close>

theorem credit_adds_amount:
  "getBal (credit L u ton) u = jadd (getBal L u) (if ton = NaN then Fin 0 else ton)
   \<and> (0 \<le> a \<longrightarrow> getBal (credit L u (Fin a)) u = jadd (getBal L u) (Fin a))
   \<and> (v \<noteq> u \<longrightarrow> getBal (credit L u ton) v = getBal L v)"
  by (simp add: credit_def getBal_upd_same getBal_upd_other or0_cases)

theorem credit_adds_amount_witness:
  "(0::rat) \<le> 5 \<and> ''v'' \<noteq> ''u''
   \<and> getBal (credit (Map.empty(''u'' \<mapsto> Fin 10)) ''u'' (Fin 5)) ''u'' = Fin 15
   \<and> getBal (credit (Map.empty(''u'' \<mapsto> Fin 10)) ''u'' (Fin 5)) ''v'' = Fin 0"
  using credit_adds_amount [of "Map.empty(''u'' \<mapsto> Fin 10)" "''u''" "Fin 5" 5 "''v''"]
  by (simp add: getBal_def)

text \<open>
  C3 as stated fails: crediting \<open>-5\<close> to a balance of 10 does not leave the balance
  unchanged, it lowers it to 5.
\<close>

theorem credit_negative_counterexample:
  "getBal (credit (Map.empty(''u'' \<mapsto> Fin 10)) ''u'' (Fin (- 5))) ''u'' = Fin 5
   \<and> getBal (Map.empty(''u'' \<mapsto> Fin 10)) ''u'' = Fin 10"
  by (simp add: credit_def getBal_def or0_def truthy_def)

text \<open>
  C4: with \<open>amount\<close> the value \<^verbatim>\<open>Number(ton) || 0\<close> that the code tests, \<^verbatim>\<open>debit\<close>
  throws \<^verbatim>\<open>Invalid debit amount\<close> exactly when \<open>amount \<le> 0\<close>, throws
  \<^verbatim>\<open>Insufficient balance\<close> exactly when \<open>0 < amount\<close> and the balance is below the
  amount, and otherwise succeeds with the balance lowered by exactly \<open>amount\<close>; a
  failing call leaves the whole ledger as it was.
\<close>

theorem debit_outcomes:
  "(fst (debit L u ton) = Some InvalidAmount \<longleftrightarrow> jle (or0 ton) (Fin 0))
   \<and> (fst (debit L u ton) = Some InsufficientBalance
        \<longleftrightarrow> jlt (Fin 0) (or0 ton) \<and> jlt (getBal L u) (or0 ton))
   \<and> (fst (debit L u ton) = None
        \<longleftrightarrow> \<not> jle (or0 ton) (Fin 0) \<and> \<not> jlt (getBal L u) (or0 ton))
   \<and> (fst (debit L u ton) = None
        \<longrightarrow> getBal (snd (debit L u ton)) u = jsub (getBal L u) (or0 ton))
   \<and> (fst (debit L u ton) \<noteq> None \<longrightarrow> snd (debit L u ton) = L)"
  using jlt_zero_iff_not_jle [OF or0_not_NaN, of ton]
  by (auto simp: debit_def Let_def getBal_upd_same)

theorem debit_outcomes_witness:
  "fst (debit (Map.empty(''u'' \<mapsto> Fin 10)) ''u'' (Fin 4)) = None
   \<and> getBal (snd (debit (Map.empty(''u'' \<mapsto> Fin 10)) ''u'' (Fin 4))) ''u'' = Fin 6
   \<and> fst (debit (Map.empty(''u'' \<mapsto> Fin 10)) ''u'' (Fin 11)) = Some InsufficientBalance
   \<and> snd (debit (Map.empty(''u'' \<mapsto> Fin 10)) ''u'' (Fin 11)) = Map.empty(''u'' \<mapsto> Fin 10)
   \<and> fst (debit (Map.empty(''u'' \<mapsto> Fin 10)) ''u'' (Fin 0)) = Some InvalidAmount"
  using debit_outcomes [of "Map.empty(''u'' \<mapsto> Fin 10)" "''u''" "Fin 4"]
        debit_outcomes [of "Map.empty(''u'' \<mapsto> Fin 10)" "''u''" "Fin 11"]
        debit_outcomes [of "Map.empty(''u'' \<mapsto> Fin 10)" "''u''" "Fin 0"]
  by (simp add: or0_def truthy_def jle_def getBal_def jsub_def)

section \<open>The pool invariant\<close>



section \<open>Directional settlement\<close>



section \<open>Settlement with an empty winning pool\<close>




section \<open>Failed price queries and draws\<close>



section \<open>Settling twice\<close>



section \<open>The daily withdrawal limit\<close>



section \<open>A withdrawal beyond the balance\<close>

text \<open>
  C10: a withdrawal request that passes validation and both limit checks but asks for
  more than the user's balance is answered with \<^verbatim>\<open>Insufficient balance\<close> and leaves the
  whole state as it was: the balance, the withdrawal log and the queue are unchanged, so
  the usage computed for any user at any time afterwards is what it was before.
\<close>

theorem overdrawn_withdrawal_is_atomic:
  assumes uid: "wr_userId r \<noteq> []" and dest: "wr_to r \<noteq> []"
    and pos: "jgt (wr_amt r) (Fin 0)"
    and daily: "\<not> jgt (jadd (wr_amt r)
                     (dailyUsed (getWithdrawUsage (withdrawalLog s) (wr_userId r) (wr_now_usage r))))
                   (WITHDRAW_LIMIT_DAILY cfg)"
    and monthly: "\<not> jgt (jadd (wr_amt r)
                     (monthlyUsed (getWithdrawUsage (withdrawalLog s) (wr_userId r) (wr_now_usage r))))
                   (WITHDRAW_LIMIT_MONTHLY cfg)"
    and over: "jlt (getBal (ledger s) (wr_userId r)) (wr_amt r)"
  shows "wallet_withdraw cfg s r = (WithdrawFailed InsufficientBalance, s)
         \<and> ledger (snd (wallet_withdraw cfg s r)) = ledger s
         \<and> withdrawalLog (snd (wallet_withdraw cfg s r)) = withdrawalLog s
         \<and> withdrawQueue (snd (wallet_withdraw cfg s r)) = withdrawQueue s
         \<and> getWithdrawUsage (withdrawalLog (snd (wallet_withdraw cfg s r))) v t
             = getWithdrawUsage (withdrawalLog s) v t"
proof -
  from pos have v: "truthy (wr_amt r)" "\<not> jle (wr_amt r) (Fin 0)"
    using positive_valid by blast+
  from pos over have "debit (ledger s) (wr_userId r) (wr_amt r) = (Some InsufficientBalance, ledger s)"
    by (rule debit_insufficient)
  with uid dest v daily monthly
  have "wallet_withdraw cfg s r = (WithdrawFailed InsufficientBalance, s)"
    by (simp add: wallet_withdraw_def Let_def)
  then show ?thesis by simp
qed

theorem overdrawn_withdrawal_is_atomic_witness:
  "wr_userId carol_withdraw \<noteq> [] \<and> wr_to carol_withdraw \<noteq> []
   \<and> jgt (wr_amt carol_withdraw) (Fin 0)
   \<and> getBal (ledger (run default_config init_state carol_run)) ''carol'' = Fin 5
   \<and> jlt (Fin 5) (wr_amt carol_withdraw)
   \<and> wallet_withdraw default_config (run default_config init_state carol_run) carol_withdraw
       = (WithdrawFailed InsufficientBalance, run default_config init_state carol_run)"
proof -
  let ?S = "run default_config init_state carol_run"
  have log: "withdrawalLog ?S = Map.empty" and queue: "withdrawQueue ?S = []"
    and bal: "getBal (ledger ?S) ''carol'' = Fin 5"
    by (simp_all add: carol_run_def eval_defs)
  have use: "getWithdrawUsage (withdrawalLog ?S) ''carol'' 1000
             = \<lparr>dailyUsed = Fin 0, monthlyUsed = Fin 0\<rparr>"
    by (simp add: getWithdrawUsage_def log)
  have cfg: "WITHDRAW_LIMIT_DAILY default_config = Fin 500"
    "WITHDRAW_LIMIT_MONTHLY default_config = Fin 3000"
    by (simp_all add: default_config_def)
  have h1: "wr_userId carol_withdraw \<noteq> []" and h2: "wr_to carol_withdraw \<noteq> []"
    and h3: "jgt (wr_amt carol_withdraw) (Fin 0)"
    by (simp_all add: carol_withdraw_def jgt_def)
  have h4: "\<not> jgt (jadd (wr_amt carol_withdraw)
                     (dailyUsed (getWithdrawUsage (withdrawalLog ?S) (wr_userId carol_withdraw)
                        (wr_now_usage carol_withdraw))))
                   (WITHDRAW_LIMIT_DAILY default_config)"
    and h5: "\<not> jgt (jadd (wr_amt carol_withdraw)
                     (monthlyUsed (getWithdrawUsage (withdrawalLog ?S) (wr_userId carol_withdraw)
                        (wr_now_usage carol_withdraw))))
                   (WITHDRAW_LIMIT_MONTHLY default_config)"
    and h6: "jlt (getBal (ledger ?S) (wr_userId carol_withdraw)) (wr_amt carol_withdraw)"
    by (simp_all add: carol_withdraw_def use bal cfg jgt_def)
  from overdrawn_withdrawal_is_atomic [OF h1 h2 h3 h4 h5 h6] h1 h2 h3 bal
  show ?thesis by (simp add: carol_withdraw_def)
qed

section \<open>Completing a withdrawal\<close>

text \<open>
  C9 as stated fails: after \<open>alice\<close>'s withdrawal \<open>wd_0\<close> has been completed, completing
  it again is answered 200 with the stored entry, not \<^verbatim>\<open>Withdrawal already processed\<close>.
  Only the second block of \<^verbatim>\<open>handleApi\<close> for this route gives that answer, and the first
  block handles every such request before it.
\<close>

theorem complete_twice_counterexample:
  "withdrawQueue (run default_config init_state processed_run) = [completed_entry]
   \<and> w_status completed_entry = Completed
   \<and> handleApi_process default_config (run default_config init_state processed_run)
        admin_process 6000
       = (ProcessOk completed_entry, run default_config init_state processed_run)
   \<and> ProcessOk completed_entry \<noteq> AlreadyProcessed
   \<and> fst (process_second default_config (run default_config init_state processed_run)
             admin_process 6000) = AlreadyProcessed"
proof -
  let ?S = "run default_config init_state processed_run"
  have q: "withdrawQueue ?S = [completed_entry]"
    by (simp add: processed_run_def run_append used_490_run_def withdraw_490_def
          admin_process_def completed_entry_def pending_entry_def
          wallet_withdraw_def getWithdrawUsage_def handleApi_process_def process_first_def
          to_hex.simps hex_digit_def jmax_def eval_defs)
  have cfg: "ADMIN_SECRET default_config = ''s3cret''"
    by (simp add: default_config_def)
  have st: "w_status completed_entry = Completed" and id: "w_id completed_entry = ''wd_0''"
    by (simp_all add: completed_entry_def pending_entry_def)
  have "handleApi_process default_config ?S admin_process 6000 = (ProcessOk completed_entry, ?S)"
    by (simp add: handleApi_process_def process_first_def admin_process_def q cfg st id)
  moreover have "fst (process_second default_config ?S admin_process 6000) = AlreadyProcessed"
    by (simp add: process_second_def admin_process_def q cfg st id)
  ultimately show ?thesis using q st by simp
qed

text \<open>
  C9 (as the code has it): for a request to this route that carries the admin secret in
  its body, completing a withdrawal answers 404 when no queue entry has the id; turns the
  first entry with the id from pending to completed, recording \<^verbatim>\<open>txHash\<close> and
  \<^verbatim>\<open>completedAt\<close>; and when that entry is already completed answers 200 with the stored
  entry and changes nothing. No request to \<^verbatim>\<open>handleApi\<close> for this route is answered
  \<^verbatim>\<open>Withdrawal already processed\<close>, and none changes the ledger.
\<close>

theorem complete_withdrawal_outcomes:
  "(p_pathname r = ''/api/admin/withdrawals/process'' \<and> p_method r = ''POST''
      \<and> ADMIN_SECRET cfg \<noteq> [] \<and> p_body_secret r = Some (ADMIN_SECRET cfg)
    \<longrightarrow>
      (find_index (\<lambda>w. Some (w_id w) = p_body_id r) (withdrawQueue s) = None
         \<longrightarrow> handleApi_process cfg s r now = (WithdrawalNotFound, s))
      \<and> (find_index (\<lambda>w. Some (w_id w) = p_body_id r) (withdrawQueue s) = Some i
           \<and> w_status (withdrawQueue s ! i) = Pending
         \<longrightarrow> handleApi_process cfg s r now
               = (ProcessOk ((withdrawQueue s ! i)
                     \<lparr>w_status := Completed,
                      w_txHash := (case p_body_txHash r of
                                     Some h \<Rightarrow> if h = [] then None else Some h
                                   | None \<Rightarrow> None),
                      w_completedAt := Some now\<rparr>),
                  s\<lparr>withdrawQueue := list_update (withdrawQueue s) i
                     ((withdrawQueue s ! i)
                       \<lparr>w_status := Completed,
                        w_txHash := (case p_body_txHash r of
                                       Some h \<Rightarrow> if h = [] then None else Some h
                                     | None \<Rightarrow> None),
                        w_completedAt := Some now\<rparr>)\<rparr>))
      \<and> (find_index (\<lambda>w. Some (w_id w) = p_body_id r) (withdrawQueue s) = Some i
           \<and> w_status (withdrawQueue s ! i) = Completed
         \<longrightarrow> handleApi_process cfg s r now = (ProcessOk (withdrawQueue s ! i), s)))
   \<and> fst (handleApi_process cfg s r now) \<noteq> AlreadyProcessed
   \<and> ledger (snd (handleApi_process cfg s r now)) = ledger s"
proof -
  have "fst (handleApi_process cfg s r now) \<noteq> AlreadyProcessed"
    using process_first_never_already [of cfg s r now]
    by (simp add: handleApi_process_def)
  moreover note handleApi_process_ledger [of cfg s r now]
  moreover have "handleApi_process cfg s r now = (WithdrawalNotFound, s)"
    if "p_pathname r = ''/api/admin/withdrawals/process''" "p_method r = ''POST''"
      "ADMIN_SECRET cfg \<noteq> []" "p_body_secret r = Some (ADMIN_SECRET cfg)"
      "find_index (\<lambda>w. Some (w_id w) = p_body_id r) (withdrawQueue s) = None"
    using that by (simp add: handleApi_process_first process_first_def)
  moreover have "handleApi_process cfg s r now
               = (ProcessOk ((withdrawQueue s ! i)
                     \<lparr>w_status := Completed,
                      w_txHash := (case p_body_txHash r of
                                     Some h \<Rightarrow> if h = [] then None else Some h
                                   | None \<Rightarrow> None),
                      w_completedAt := Some now\<rparr>),
                  s\<lparr>withdrawQueue := list_update (withdrawQueue s) i
                     ((withdrawQueue s ! i)
                       \<lparr>w_status := Completed,
                        w_txHash := (case p_body_txHash r of
                                       Some h \<Rightarrow> if h = [] then None else Some h
                                     | None \<Rightarrow> None),
                        w_completedAt := Some now\<rparr>)\<rparr>)"
    if "p_pathname r = ''/api/admin/withdrawals/process''" "p_method r = ''POST''"
      "ADMIN_SECRET cfg \<noteq> []" "p_body_secret r = Some (ADMIN_SECRET cfg)"
      "find_index (\<lambda>w. Some (w_id w) = p_body_id r) (withdrawQueue s) = Some i"
      "w_status (withdrawQueue s ! i) = Pending"
    using that by (simp add: handleApi_process_first process_first_def Let_def)
  moreover have "handleApi_process cfg s r now = (ProcessOk (withdrawQueue s ! i), s)"
    if "p_pathname r = ''/api/admin/withdrawals/process''" "p_method r = ''POST''"
      "ADMIN_SECRET cfg \<noteq> []" "p_body_secret r = Some (ADMIN_SECRET cfg)"
      "find_index (\<lambda>w. Some (w_id w) = p_body_id r) (withdrawQueue s) = Some i"
      "w_status (withdrawQueue s ! i) = Completed"
    using that by (simp add: handleApi_process_first process_first_def Let_def)
  ultimately show ?thesis by blast
qed

theorem complete_withdrawal_outcomes_witness:
  "p_pathname admin_process = ''/api/admin/withdrawals/process''
   \<and> p_method admin_process = ''POST''
   \<and> ADMIN_SECRET default_config \<noteq> []
   \<and> p_body_secret admin_process = Some (ADMIN_SECRET default_config)
   \<and> withdrawQueue (run default_config init_state used_490_run) = [pending_entry]
   \<and> w_status pending_entry = Pending
   \<and> fst (handleApi_process default_config (run default_config init_state used_490_run)
             admin_process 5000) = ProcessOk completed_entry
   \<and> withdrawQueue (snd (handleApi_process default_config
                            (run default_config init_state used_490_run) admin_process 5000))
       = [completed_entry]
   \<and> ledger (snd (handleApi_process default_config
                     (run default_config init_state used_490_run) admin_process 5000))
       = ledger (run default_config init_state used_490_run)"
proof -
  let ?S = "run default_config init_state used_490_run"
  have q: "withdrawQueue ?S = [pending_entry]"
    by (simp add: used_490_run_def withdraw_490_def pending_entry_def
          wallet_withdraw_def getWithdrawUsage_def to_hex.simps hex_digit_def jmax_def eval_defs)
  have h: "p_pathname admin_process = ''/api/admin/withdrawals/process''
     \<and> p_method admin_process = ''POST''
     \<and> ADMIN_SECRET default_config \<noteq> []
     \<and> p_body_secret admin_process = Some (ADMIN_SECRET default_config)"
    by (simp add: admin_process_def default_config_def)
  have f: "find_index (\<lambda>w. Some (w_id w) = p_body_id admin_process) (withdrawQueue ?S) = Some 0
     \<and> w_status (withdrawQueue ?S ! 0) = Pending"
    by (simp add: q pending_entry_def admin_process_def)
  have st: "w_status pending_entry = Pending"
    by (simp add: pending_entry_def)
  let ?e = "(withdrawQueue ?S ! 0)
     \<lparr>w_status := Completed,
      w_txHash := (case p_body_txHash admin_process of
                     Some h \<Rightarrow> if h = [] then None else Some h
                   | None \<Rightarrow> None),
      w_completedAt := Some 5000\<rparr>"
  from complete_withdrawal_outcomes [where r = admin_process and cfg = default_config
      and s = ?S and i = 0 and now = 5000] h f
  have r: "handleApi_process default_config ?S admin_process 5000
        = (ProcessOk ?e, ?S\<lparr>withdrawQueue := list_update (withdrawQueue ?S) 0 ?e\<rparr>)"
    and l: "ledger (snd (handleApi_process default_config ?S admin_process 5000)) = ledger ?S"
    by blast+
  have e: "?e = completed_entry"
    by (simp add: q completed_entry_def admin_process_def)
  have "fst (handleApi_process default_config ?S admin_process 5000) = ProcessOk completed_entry"
    unfolding r e by simp
  moreover have "withdrawQueue (snd (handleApi_process default_config ?S admin_process 5000))
       = [completed_entry]"
    unfolding r e by (simp add: q)
  ultimately show ?thesis using h q st l by blast
qed

end
